theory Spec2Isabelle
  imports Complex_Main
begin

section \<open>Tokens, trees and errors\<close>

text \<open>
  A node token is a Python string (\<open>"="\<close>, an operator, \<open>"x"\<close>) or a float
  (\<open>str_or_float\<close> in the docstring of \<open>_BinaryTreeNode\<close>). The float type is a
  parameter of the model.
\<close>

datatype 'a token = Str string | Flt 'a

text \<open>
  \<open>_BinaryTreeNode\<close>: a token and two optional children (\<open>None\<close> when absent).
\<close>

datatype 'a node = Node (token: "'a token") (left: "'a node option") (right: "'a node option")

text \<open>
  The exceptions \<open>parse\<close> can raise, each with its message: \<open>SyntaxError\<close> and
  \<open>NameError\<close> are raised by the source, \<open>IndexError\<close> by a list read out of range.
\<close>

datatype parse_error = SyntaxError string | NameError string | IndexError string

text \<open>
  The exceptions \<open>evaluate\<close> can raise: \<open>ValueError\<close> by the source, \<open>KeyError\<close> by the
  lookup in the \<open>ops\<close> dictionary (it carries the key), \<open>TypeError\<close> by a numpy
  function.
\<close>

datatype 'a eval_error = ValueError string | KeyError "'a token" | TypeError string

section \<open>Tokenizer\<close>

text \<open>
  The character class of the regular expression in \<open>_tockenize\<close>:
  \<^verbatim>\<open>[\+\-\*\/\^\(\)]\<close>.
\<close>

definition delimiters :: "char list" where
  "delimiters = [CHR ''+'', CHR ''-'', CHR ''*'', CHR ''/'', CHR ''^'', CHR ''('', CHR '')'']"

definition is_delimiter :: "char \<Rightarrow> bool" where
  "is_delimiter c = (c \<in> set delimiters)"

text \<open>
  \<open>re.split\<close> with one capturing group around the delimiter class: the fragments between
  the delimiters (empty ones included) alternate with the delimiters themselves. The
  first argument is the fragment read so far.
\<close>

fun re_split :: "string \<Rightarrow> string \<Rightarrow> string list" where
  "re_split frag [] = [frag]"
| "re_split frag (c # cs) =
     (if is_delimiter c then frag # [c] # re_split [] cs else re_split (frag @ [c]) cs)"

text \<open>\<open>self.expr.replace(" ", "")\<close>: every occurrence of the space character is removed.\<close>

definition remove_spaces :: "string \<Rightarrow> string" where
  "remove_spaces expr = filter (\<lambda>c. c \<noteq> CHR '' '') expr"

text \<open>
  The list comprehension of \<open>_tockenize\<close>: the split of the expression without spaces,
  the empty strings dropped. This is \<open>self.lexems\<close> before \<open>_preprocess\<close> runs.
\<close>

definition lexems_of :: "string \<Rightarrow> string list" where
  "lexems_of expr = filter (\<lambda>tk. tk \<noteq> []) (re_split [] (remove_spaces expr))"

section \<open>Precedence by inserted parentheses\<close>

text \<open>\<open>list.insert(i, v)\<close> for \<open>i \<ge> 0\<close>: an index past the end appends.\<close>

definition list_insert :: "nat \<Rightarrow> 'b \<Rightarrow> 'b list \<Rightarrow> 'b list" where
  "list_insert i v xs = take i xs @ v # drop i xs"

text \<open>
  The first loop of \<open>_insertParanthesesAround\<close>, \<open>for ptr in range(index - 1, -1, -1)\<close>.
  \<open>open_scan lexems n cnt\<close> runs the iterations \<open>ptr = n - 1, ..., 0\<close> from the count
  \<open>cnt\<close>; it returns the position of the \<open>break\<close> (if any) and the final count. Reading
  \<open>self.lexems[ptr]\<close> past the end raises \<open>IndexError\<close>.
\<close>

fun open_scan :: "string list \<Rightarrow> nat \<Rightarrow> int \<Rightarrow> parse_error + (nat option \<times> int)" where
  "open_scan lexems 0 cnt = Inr (None, cnt)"
| "open_scan lexems (Suc ptr) cnt =
     (if length lexems \<le> ptr then Inl (IndexError ''list index out of range'')
      else if lexems ! ptr = '')'' then open_scan lexems ptr (cnt + 1)
      else (let cnt' = (if lexems ! ptr = ''('' then cnt - 1 else cnt)
            in if cnt' = 0 then Inr (Some ptr, cnt') else open_scan lexems ptr cnt'))"

text \<open>
  The second loop, \<open>for ptr in range(index + 2, len(self.lexems), 1)\<close>, over the tokens
  from \<open>ptr\<close> on.
\<close>

fun close_scan :: "string list \<Rightarrow> nat \<Rightarrow> int \<Rightarrow> nat option \<times> int" where
  "close_scan [] ptr cnt = (None, cnt)"
| "close_scan (tk # rest) ptr cnt =
     (if tk = ''('' then close_scan rest (Suc ptr) (cnt + 1)
      else (let cnt' = (if tk = '')'' then cnt - 1 else cnt)
            in if cnt' = 0 then (Some ptr, cnt') else close_scan rest (Suc ptr) cnt'))"

definition insertParanthesesAround :: "string list \<Rightarrow> nat \<Rightarrow> parse_error + string list" where
  "insertParanthesesAround lexems index =
     (case open_scan lexems index 0 of
        Inl e \<Rightarrow> Inl e
      | Inr (opening, cnt) \<Rightarrow>
          (let lexems1 = (case opening of None \<Rightarrow> lexems | Some ptr \<Rightarrow> list_insert ptr ''('' lexems)
           in if cnt \<noteq> 0 then Inl (SyntaxError ''Too many closing parantheses'')
              else if index + 2 \<ge> length lexems1 then Inr (list_insert (index + 2) '')'' lexems1)
              else (case close_scan (drop (index + 2) lexems1) (index + 2) cnt of
                      (closing, cnt') \<Rightarrow>
                        (let lexems2 = (case closing of None \<Rightarrow> lexems1
                                        | Some ptr \<Rightarrow> list_insert (ptr + 1) '')'' lexems1)
                         in if cnt' \<noteq> 0 then Inl (SyntaxError ''Too few closing parantheses'')
                            else Inr lexems2))))"

text \<open>\<open>[i for i, el in enumerate(self.lexems) if el in tier]\<close>.\<close>

definition indices_of :: "string list \<Rightarrow> string list \<Rightarrow> nat list" where
  "indices_of tier lexems = filter (\<lambda>i. lexems ! i \<in> set tier) [0..<length lexems]"

text \<open>
  One loop of \<open>_preprocess\<close>: \<open>for i in range(len(indices))\<close> calls
  \<open>_insertParanthesesAround(indices[i] + 2 * i)\<close>; an exception ends it.
\<close>

fun wrap_all :: "string list \<Rightarrow> nat list \<Rightarrow> nat \<Rightarrow> parse_error + string list" where
  "wrap_all lexems [] i = Inr lexems"
| "wrap_all lexems (p # ps) i =
     (case insertParanthesesAround lexems (p + 2 * i) of
        Inl e \<Rightarrow> Inl e
      | Inr lexems' \<Rightarrow> wrap_all lexems' ps (Suc i))"

definition wrap_pass :: "string list \<Rightarrow> string list \<Rightarrow> parse_error + string list" where
  "wrap_pass tier lexems = wrap_all lexems (indices_of tier lexems) 0"

definition preprocess :: "string list \<Rightarrow> parse_error + string list" where
  "preprocess lexems =
     (case wrap_pass [''^''] lexems of
        Inl e \<Rightarrow> Inl e
      | Inr l1 \<Rightarrow>
          (case wrap_pass [''*'', ''/''] l1 of
             Inl e \<Rightarrow> Inl e
           | Inr l2 \<Rightarrow> wrap_pass [''+'', ''-''] l2))"

definition tockenize :: "string \<Rightarrow> parse_error + string list" where
  "tockenize expr = preprocess (lexems_of expr)"

section \<open>Tree builder\<close>

text \<open>
  \<open>setToken\<close>, \<open>insertLeft\<close> and \<open>insertRight\<close> of \<open>_BinaryTreeNode\<close>: the inserted child
  is a fresh node without children, and replaces a child that is already there.
\<close>

definition setToken :: "'a token \<Rightarrow> 'a node \<Rightarrow> 'a node" where
  "setToken tk n = Node tk (left n) (right n)"

definition insertLeft :: "'a token \<Rightarrow> 'a node \<Rightarrow> 'a node" where
  "insertLeft tk n = Node (token n) (Some (Node tk None None)) (right n)"

definition insertRight :: "'a token \<Rightarrow> 'a node \<Rightarrow> 'a node" where
  "insertRight tk n = Node (token n) (left n) (Some (Node tk None None))"

text \<open>
  \<open>parse\<close> holds references to nodes of the tree it is building (\<open>current_node\<close> and the
  entries of \<open>nodes_stack\<close>) and mutates the nodes through them. A reference is modelled
  by the position of the node in the tree: the directions that lead to it from the root
  \<open>ast\<close>. The nodes of the stack are ancestors of the current node
  (lemma \<open>build_well_formed\<close> below), so no mutation through \<open>current_node\<close> detaches a
  node that is still referenced.
\<close>

datatype dir = L | R

type_synonym ref = "dir list"

fun deref :: "'a node \<Rightarrow> ref \<Rightarrow> 'a node option" where
  "deref n [] = Some n"
| "deref n (L # p) = (case left n of None \<Rightarrow> None | Some c \<Rightarrow> deref c p)"
| "deref n (R # p) = (case right n of None \<Rightarrow> None | Some c \<Rightarrow> deref c p)"

text \<open>\<open>mutate f n p\<close>: the tree \<open>n\<close> after the method \<open>f\<close> ran on the node at \<open>p\<close>.\<close>

fun mutate :: "('a node \<Rightarrow> 'a node) \<Rightarrow> 'a node \<Rightarrow> ref \<Rightarrow> 'a node" where
  "mutate f n [] = f n"
| "mutate f n (L # p) = Node (token n) (map_option (\<lambda>c. mutate f c p) (left n)) (right n)"
| "mutate f n (R # p) = Node (token n) (left n) (map_option (\<lambda>c. mutate f c p) (right n))"

text \<open>\<open>current_node.getLeft()\<close> is not \<open>None\<close>.\<close>

definition has_left :: "'a node \<Rightarrow> ref \<Rightarrow> bool" where
  "has_left n p = (case deref n p of None \<Rightarrow> False | Some c \<Rightarrow> left c \<noteq> None)"

text \<open>
  The local variables of \<open>parse\<close>. The deque \<open>nodes_stack\<close> is a list with its top
  (the right end of the deque) at the head.
\<close>

record 'a builder =
  ast :: "'a node"
  current_node :: ref
  nodes_stack :: "ref list"

definition start :: "'a builder" where
  "start = \<lparr>ast = Node (Str ''='') None None, current_node = [], nodes_stack = []\<rparr>"

definition operators :: "string list" where
  "operators = [''+'', ''-'', ''*'', ''/'', ''^'']"

text \<open>
  The body of the loop \<open>for tk in self.lexems\<close>. The conversion \<open>float(tk)\<close> is the
  parameter \<open>flt\<close>: \<open>None\<close> where Python raises \<open>ValueError\<close>.
\<close>

definition unknown_variable :: "string \<Rightarrow> string" where
  "unknown_variable tk = ''Unknown variable ('' @ [CHR 0x27] @ tk @ [CHR 0x27] @ '')''"

definition step :: "(string \<Rightarrow> 'a option) \<Rightarrow> string \<Rightarrow> 'a builder \<Rightarrow> parse_error + 'a builder" where
  "step flt tk b =
     (let cur = current_node b in
      if tk = ''('' then
        (if \<not> has_left (ast b) cur then
           Inr \<lparr>ast = mutate (insertLeft (Str ''='')) (ast b) cur,
                current_node = cur @ [L],
                nodes_stack = cur # nodes_stack b\<rparr>
         else
           Inr \<lparr>ast = mutate (insertRight (Str ''='')) (ast b) cur,
                current_node = cur @ [R],
                nodes_stack = nodes_stack b\<rparr>)
      else if tk \<in> set operators then
        Inr \<lparr>ast = mutate (\<lambda>n. insertRight (Str ''='') (setToken (Str tk) n)) (ast b) cur,
             current_node = cur @ [R],
             nodes_stack = nodes_stack b\<rparr>
      else if tk = '')'' then
        (case nodes_stack b of
           [] \<Rightarrow> Inr b
         | parent # rest \<Rightarrow> Inr \<lparr>ast = ast b, current_node = parent, nodes_stack = rest\<rparr>)
      else if tk = ''x'' then
        Inr \<lparr>ast = mutate (insertLeft (Str tk)) (ast b) cur,
             current_node = cur,
             nodes_stack = nodes_stack b\<rparr>
      else
        (case flt tk of
           None \<Rightarrow> Inl (NameError (unknown_variable tk))
         | Some v \<Rightarrow>
             Inr \<lparr>ast = mutate (insertLeft (Flt v)) (ast b) cur,
                  current_node = cur,
                  nodes_stack = nodes_stack b\<rparr>))"

fun build :: "(string \<Rightarrow> 'a option) \<Rightarrow> string list \<Rightarrow> 'a builder \<Rightarrow> parse_error + 'a builder" where
  "build flt [] b = Inr b"
| "build flt (tk # tks) b =
     (case step flt tk b of Inl e \<Rightarrow> Inl e | Inr b' \<Rightarrow> build flt tks b')"

text \<open>
  The end of \<open>parse\<close>: a stack that is not empty is an error, otherwise the root is
  stored in \<open>self.ast\<close>.
\<close>

definition finish :: "'a builder \<Rightarrow> parse_error + 'a node" where
  "finish b =
     (if nodes_stack b \<noteq> [] then Inl (SyntaxError ''Too few closing parantheses'')
      else Inr (ast b))"

definition parse_lexems :: "(string \<Rightarrow> 'a option) \<Rightarrow> string list \<Rightarrow> parse_error + 'a node" where
  "parse_lexems flt lexems =
     (case build flt lexems start of Inl e \<Rightarrow> Inl e | Inr b \<Rightarrow> finish b)"

definition parse :: "(string \<Rightarrow> 'a option) \<Rightarrow> string \<Rightarrow> parse_error + 'a node" where
  "parse flt expr =
     (case tockenize expr of Inl e \<Rightarrow> Inl e | Inr lexems \<Rightarrow> parse_lexems flt lexems)"

section \<open>Evaluator\<close>

text \<open>
  What \<open>evaluate\<close> can return: the argument \<open>x\<close> (a numpy array), the token of a node (a
  float or a string), or the result of a numpy function (a float or an array).
\<close>

datatype 'a npval = Scalar 'a | Array "'a list" | Text string

fun value_of :: "'a token \<Rightarrow> 'a npval" where
  "value_of (Flt v) = Scalar v"
| "value_of (Str s) = Text s"

text \<open>The dictionary \<open>ops\<close> of \<open>evaluate\<close>; \<open>None\<close> is a key that is not in it.\<close>

datatype ufunc = Add | Subtract | Multiply | Divide | Power

definition ops :: "'a token \<Rightarrow> ufunc option" where
  "ops tk =
     (if tk = Str ''+'' then Some Add
      else if tk = Str ''-'' then Some Subtract
      else if tk = Str ''*'' then Some Multiply
      else if tk = Str ''/'' then Some Divide
      else if tk = Str ''^'' then Some Power
      else None)"

text \<open>
  \<open>_BinaryTreeNode.evaluate\<close>. The numpy functions are the parameter \<open>np\<close>. The node is
  the state of the method: the result comes with the node as the call leaves it, so
  that what the call does to the tree is part of the model. The lookup \<open>ops[...]\<close>
  comes before the operands are evaluated, the left operand before the right one.
\<close>

fun evaluate ::
  "(ufunc \<Rightarrow> 'a npval \<Rightarrow> 'a npval \<Rightarrow> 'a eval_error + 'a npval) \<Rightarrow> 'a node \<Rightarrow> 'a npval
     \<Rightarrow> ('a eval_error + 'a npval) \<times> 'a node" where
  "evaluate np (Node tk (Some l) (Some r)) x =
     (case ops tk of
        None \<Rightarrow> (Inl (KeyError tk), Node tk (Some l) (Some r))
      | Some fn \<Rightarrow>
          (case evaluate np l x of
             (Inl e, l') \<Rightarrow> (Inl e, Node tk (Some l') (Some r))
           | (Inr a, l') \<Rightarrow>
               (case evaluate np r x of
                  (Inl e, r') \<Rightarrow> (Inl e, Node tk (Some l') (Some r'))
                | (Inr b, r') \<Rightarrow> (np fn a b, Node tk (Some l') (Some r')))))"
| "evaluate np (Node tk (Some l) None) x =
     (case evaluate np l x of (res, l') \<Rightarrow> (res, Node tk (Some l') None))"
| "evaluate np (Node tk None r) x =
     (if tk \<noteq> Str ''='' then
        (if tk = Str ''x'' then (Inr x, Node tk None r) else (Inr (value_of tk), Node tk None r))
      else (Inl (ValueError ''Missing Operand''), Node tk None r))"

text \<open>
  A model of the five numpy functions on floats and one-dimensional arrays, with the
  arithmetic of the reals standing for binary64: exact wherever the operands and the
  result are integers below \<open>2^53\<close>, as in the formulas evaluated below; rounding,
  overflow, \<open>inf\<close> and \<open>nan\<close> (a division by zero, a negative base with a fractional
  exponent) are outside it. A float broadcasts against an array; two arrays need
  equal lengths, or one of them a single element; a string operand has no loop in
  these functions (as in numpy 1; numpy 2 lets \<open>np.add\<close> concatenate two strings).
\<close>

fun kernel :: "ufunc \<Rightarrow> real \<Rightarrow> real \<Rightarrow> real" where
  "kernel Add a b = a + b"
| "kernel Subtract a b = a - b"
| "kernel Multiply a b = a * b"
| "kernel Divide a b = a / b"
| "kernel Power a b = (if b = of_int \<lfloor>b\<rfloor> then a powi \<lfloor>b\<rfloor> else a powr b)"

fun numpy :: "ufunc \<Rightarrow> real npval \<Rightarrow> real npval \<Rightarrow> real eval_error + real npval" where
  "numpy fn (Scalar a) (Scalar b) = Inr (Scalar (kernel fn a b))"
| "numpy fn (Scalar a) (Array bs) = Inr (Array (map (kernel fn a) bs))"
| "numpy fn (Array as) (Scalar b) = Inr (Array (map (\<lambda>a. kernel fn a b) as))"
| "numpy fn (Array as) (Array bs) =
     (if length as = length bs then Inr (Array (map2 (kernel fn) as bs))
      else if length as = 1 then Inr (Array (map (kernel fn (hd as)) bs))
      else if length bs = 1 then Inr (Array (map (\<lambda>a. kernel fn a (hd bs)) as))
      else Inl (ValueError ''operands could not be broadcast together''))"
| "numpy fn (Text s) b = Inl (TypeError ''ufunc did not contain a loop with matching signature'')"
| "numpy fn a (Text s) = Inl (TypeError ''ufunc did not contain a loop with matching signature'')"

text \<open>
  \<open>float(tk)\<close> on the plain decimal literals: digits with at most one point and at
  least one digit (\<open>12\<close>, \<open>12.5\<close>, \<open>12.\<close>, \<open>.5\<close>). Every other string is taken as not a
  number; Python's \<open>float\<close> accepts more (exponents, \<open>inf\<close>, \<open>nan\<close>, underscores,
  surrounding blanks). It is used for the concrete formulas below; the general
  theorems hold for every conversion.
\<close>

definition digit_of :: "char \<Rightarrow> nat option" where
  "digit_of c =
     (let n = (of_char c :: nat) in if 48 \<le> n \<and> n \<le> 57 then Some (n - 48) else None)"

fun digits_value :: "nat \<Rightarrow> string \<Rightarrow> nat option" where
  "digits_value acc [] = Some acc"
| "digits_value acc (c # cs) =
     (case digit_of c of None \<Rightarrow> None | Some d \<Rightarrow> digits_value (10 * acc + d) cs)"

definition float_of :: "string \<Rightarrow> real option" where
  "float_of tk =
     (let whole = takeWhile (\<lambda>c. c \<noteq> CHR ''.'') tk;
          frac = drop (Suc (length whole)) tk
      in if whole = [] \<and> frac = [] then None
         else (case (digits_value 0 whole, digits_value 0 frac) of
                 (Some w, Some f) \<Rightarrow> Some (real w + real f / 10 ^ length frac)
               | _ \<Rightarrow> None))"

text \<open>
  The use the tests and the widget make of the class: \<open>parse()\<close>, then \<open>evaluate(x)\<close>
  on the stored tree. The outer result is that of \<open>parse\<close>, the inner one that of
  \<open>evaluate\<close>.
\<close>

definition parse_evaluate ::
  "(string \<Rightarrow> 'a option) \<Rightarrow> (ufunc \<Rightarrow> 'a npval \<Rightarrow> 'a npval \<Rightarrow> 'a eval_error + 'a npval)
     \<Rightarrow> string \<Rightarrow> 'a npval \<Rightarrow> parse_error + ('a eval_error + 'a npval)" where
  "parse_evaluate flt np expr x =
     (case parse flt expr of Inl e \<Rightarrow> Inl e | Inr t \<Rightarrow> Inr (fst (evaluate np t x)))"

section \<open>Predicates used in the statements\<close>

text \<open>A token that is one of the seven delimiter characters on its own.\<close>

definition delimiter_token :: "string \<Rightarrow> bool" where
  "delimiter_token tk = (length tk = 1 \<and> is_delimiter (hd tk))"

text \<open>No two neighbouring tokens are both fragments: a delimiter stands between them.\<close>

fun separated :: "string list \<Rightarrow> bool" where
  "separated (a # b # rest) = ((delimiter_token a \<or> delimiter_token b) \<and> separated (b # rest))"
| "separated [a] = True"
| "separated [] = True"

definition parenthesis :: "string \<Rightarrow> bool" where
  "parenthesis tk = (tk = ''('' \<or> tk = '')'')"

text \<open>
  \<open>parentheses_added lexems out\<close>: the list \<open>out\<close> is the list \<open>lexems\<close> with
  parenthesis tokens inserted; every token of \<open>lexems\<close> is kept, in its order, and
  nothing but parentheses is new.
\<close>

fun parentheses_added :: "string list \<Rightarrow> string list \<Rightarrow> bool" where
  "parentheses_added [] [] = True"
| "parentheses_added (a # ls) [] = False"
| "parentheses_added [] (t # out) = (parenthesis t \<and> parentheses_added [] out)"
| "parentheses_added (a # ls) (t # out) =
     ((a = t \<and> parentheses_added ls out) \<or> (parenthesis t \<and> parentheses_added (a # ls) out))"

text \<open>
  The references of a builder are well formed when the current node exists in the tree
  and the stack holds proper ancestors of it, each entry an ancestor of the one above.
\<close>

fun ancestors :: "ref \<Rightarrow> ref list \<Rightarrow> bool" where
  "ancestors cur [] = True"
| "ancestors cur (p # ps) =
     (length p < length cur \<and> take (length p) cur = p \<and> ancestors p ps)"

definition well_formed :: "'a builder \<Rightarrow> bool" where
  "well_formed b =
     (deref (ast b) (current_node b) \<noteq> None \<and> ancestors (current_node b) (nodes_stack b))"

section \<open>The formulas of the test suite\<close>

lemma tockenize_too_many:
  "tockenize ''(3 + 2))^2'' = Inl (SyntaxError ''Too many closing parantheses'')"
  by code_simp

lemma tockenize_too_few:
  "tockenize ''2^((2)'' = Inl (SyntaxError ''Too few closing parantheses'')"
  by code_simp

text \<open>
  C7: the two failures of the test suite carry their side. \<open>(3 + 2))^2\<close> fails with
  "Too many closing parantheses" and \<open>2^((2)\<close> with "Too few closing parantheses",
  whatever the conversion of numbers is (both fail before any number is converted).
\<close>

theorem parse_error_sides:
  "parse flt ''(3 + 2))^2'' = Inl (SyntaxError ''Too many closing parantheses'') \<and>
   parse flt ''2^((2)'' = Inl (SyntaxError ''Too few closing parantheses'')"
  by (simp add: parse_def tockenize_too_many tockenize_too_few)

text \<open>
  C8: \<open>3 + x * 2\<close> parses, and its tree evaluated at \<open>[1, 2, 3, 4, 5]\<close> is
  \<open>[5, 7, 9, 11, 13]\<close>. The product binds tighter by the inserted parentheses: the
  normalized tokens are \<open>( 3 + ( x * 2 ) )\<close>. The same holds with the product on the
  left: \<open>x * 2 + 3\<close> is normalized to \<open>( ( x * 2 ) + 3 )\<close> and has the same values.
\<close>

theorem precedence_example:
  "tockenize ''3 + x * 2'' = Inr [''('', ''3'', ''+'', ''('', ''x'', ''*'', ''2'', '')'', '')''] \<and>
   parse_evaluate float_of numpy ''3 + x * 2'' (Array [1, 2, 3, 4, 5]) =
     Inr (Inr (Array [5, 7, 9, 11, 13])) \<and>
   tockenize ''x * 2 + 3'' = Inr [''('', ''('', ''x'', ''*'', ''2'', '')'', ''+'', ''3'', '')''] \<and>
   parse_evaluate float_of numpy ''x * 2 + 3'' (Array [1, 2, 3, 4, 5]) =
     Inr (Inr (Array [5, 7, 9, 11, 13]))"
  by code_simp

text \<open>
  It is the normalization that decides: the builder run on the tokens of \<open>x * 2 + 3\<close>
  as the tokenizer splits them, without the inserted parentheses, nests every operator
  to the right and yields \<open>x * (2 + 3)\<close>.
\<close>

lemma without_normalization:
  "parse_lexems float_of (lexems_of ''x * 2 + 3'') =
     Inr (Node (Str ''*'') (Some (Node (Str ''x'') None None))
            (Some (Node (Str ''+'') (Some (Node (Flt 2) None None))
               (Some (Node (Str ''='') (Some (Node (Flt 3) None None)) None))))) \<and>
   fst (evaluate numpy
          (Node (Str ''*'') (Some (Node (Str ''x'') None None))
             (Some (Node (Str ''+'') (Some (Node (Flt 2) None None))
                (Some (Node (Str ''='') (Some (Node (Flt 3) None None)) None)))))
          (Array [1, 2, 3, 4, 5])) = Inr (Array [5, 10, 15, 20, 25])"
  by code_simp

lemma tockenize_empty: "tockenize [] = Inr []"
  by code_simp

text \<open>
  C10: the empty string parses to the bare root \<open>=\<close> without children, and evaluating
  that tree raises \<open>ValueError("Missing Operand")\<close> for every argument.
\<close>

theorem parse_empty_missing_operand:
  "parse flt [] = Inr (Node (Str ''='') None None) \<and>
   fst (evaluate np (Node (Str ''='') None None) x) = Inl (ValueError ''Missing Operand'')"
  by (simp add: parse_def tockenize_empty parse_lexems_def start_def finish_def)

section \<open>Where the index offset of a pass goes wrong\<close>

lemma tockenize_nested_product:
  "tockenize ''2*(3*4)'' = Inl (SyntaxError ''Too few closing parantheses'')"
  by code_simp

text \<open>
  C1: \<open>2*(3*4)\<close> is a well-formed formula (balanced parentheses, numbers, every operator
  with two operands), and \<open>parse\<close> raises \<open>SyntaxError\<close> on it.
\<close>

theorem parse_nested_product_fails:
  "parse flt ''2*(3*4)'' = Inl (SyntaxError ''Too few closing parantheses'')"
  by (simp add: parse_def tockenize_nested_product)

text \<open>
  C2: in the pass over \<open>*\<close> and \<open>/\<close> of \<open>2*(3*4)\<close> the recorded indices are 1 and 4.
  After the first operator is wrapped, the closing parenthesis stands behind the second
  operator, which has moved by one only: index \<open>4 + 2 * 1\<close> holds the operand \<open>4\<close>, the
  operator is at index 5, and the call of \<open>_insertParanthesesAround\<close> at that index
  raises \<open>SyntaxError\<close>.
\<close>

theorem offset_misses_nested_operator:
  "lexems_of ''2*(3*4)'' = [''2'', ''*'', ''('', ''3'', ''*'', ''4'', '')''] \<and>
   indices_of [''*'', ''/''] (lexems_of ''2*(3*4)'') = [1, 4] \<and>
   insertParanthesesAround (lexems_of ''2*(3*4)'') (1 + 2 * 0) =
     Inr [''('', ''2'', ''*'', ''('', ''3'', ''*'', ''4'', '')'', '')''] \<and>
   [''('', ''2'', ''*'', ''('', ''3'', ''*'', ''4'', '')'', '')''] ! (4 + 2 * 1) = ''4'' \<and>
   [''('', ''2'', ''*'', ''('', ''3'', ''*'', ''4'', '')'', '')''] ! (4 + 1) = ''*'' \<and>
   insertParanthesesAround [''('', ''2'', ''*'', ''('', ''3'', ''*'', ''4'', '')'', '')''] (4 + 2 * 1) =
     Inl (SyntaxError ''Too few closing parantheses'')"
  by code_simp

section \<open>Evaluation\<close>

lemma parse_juxtaposed:
  "parse float_of ''x(x)'' =
     Inr (Node (Str ''='') (Some (Node (Str ''x'') None None))
            (Some (Node (Str ''='') (Some (Node (Str ''x'') None None)) None)))"
  by code_simp

text \<open>
  C3: \<open>x(x)\<close> parses; the root of its tree has two children and keeps the token \<open>=\<close>,
  so evaluation raises \<open>KeyError\<close> at the lookup in \<open>ops\<close>, for every argument.
\<close>

theorem evaluate_juxtaposed_key_error:
  "parse float_of ''x(x)'' =
     Inr (Node (Str ''='') (Some (Node (Str ''x'') None None))
            (Some (Node (Str ''='') (Some (Node (Str ''x'') None None)) None))) \<and>
   fst (evaluate np
          (Node (Str ''='') (Some (Node (Str ''x'') None None))
             (Some (Node (Str ''='') (Some (Node (Str ''x'') None None)) None))) x) =
     Inl (KeyError (Str ''=''))"
  by (simp add: parse_juxtaposed ops_def)

lemma evaluate_snd: "snd (evaluate np t x) = t"
  by (induction np t x rule: evaluate.induct) (auto split: option.splits prod.splits sum.splits)

text \<open>
  C9: \<open>evaluate\<close> leaves the tree as it found it, every node with its token and its
  children, whatever the numpy functions and the argument are; so an evaluation that
  follows another one (at the same or at another argument) returns what it would have
  returned as the first.
\<close>

theorem evaluate_frame:
  "snd (evaluate np t x) = t \<and>
   fst (evaluate np (snd (evaluate np t x)) y) = fst (evaluate np t y)"
  by (simp add: evaluate_snd)

section \<open>What the tokenizer returns\<close>

lemma concat_re_split: "concat (re_split frag s) = frag @ s"
  by (induction s arbitrary: frag) auto

lemma concat_drop_empty: "concat (filter (\<lambda>tk. tk \<noteq> []) xs) = concat xs"
  by (induction xs) auto

lemma concat_lexems_of: "concat (lexems_of expr) = remove_spaces expr"
  by (simp add: lexems_of_def concat_drop_empty concat_re_split)

lemma re_split_shape:
  "list_all (\<lambda>c. \<not> is_delimiter c) frag \<Longrightarrow> tk \<in> set (re_split frag s) \<Longrightarrow>
   delimiter_token tk \<or> list_all (\<lambda>c. \<not> is_delimiter c) tk"
proof (induction s arbitrary: frag)
  case Nil
  then show ?case by simp
next
  case (Cons c cs)
  show ?case
  proof (cases "is_delimiter c")
    case True
    with Cons.prems(2) consider "tk = frag" | "tk = [c]" | "tk \<in> set (re_split [] cs)"
      by auto
    then show ?thesis
    proof cases
      case 1
      with Cons.prems(1) show ?thesis by simp
    next
      case 2
      with True show ?thesis by (simp add: delimiter_token_def)
    next
      case 3
      then show ?thesis using Cons.IH [of "[]"] by simp
    qed
  next
    case False
    with Cons.prems have "tk \<in> set (re_split (frag @ [c]) cs)"
      and "list_all (\<lambda>c. \<not> is_delimiter c) (frag @ [c])" by simp_all
    then show ?thesis using Cons.IH [of "frag @ [c]"] by blast
  qed
qed

lemma separated_after_delimiter:
  "delimiter_token a \<Longrightarrow> separated (a # ts) = separated ts"
  by (cases ts) simp_all

lemma separated_re_split: "separated (filter (\<lambda>tk. tk \<noteq> []) (re_split frag s))"
proof (induction s arbitrary: frag)
  case Nil
  then show ?case by simp
next
  case (Cons c cs)
  show ?case
  proof (cases "is_delimiter c")
    case True
    then have d: "delimiter_token [c]" by (simp add: delimiter_token_def)
    have "separated ([c] # filter (\<lambda>tk. tk \<noteq> []) (re_split [] cs))"
      using Cons.IH [of "[]"] d by (simp add: separated_after_delimiter)
    with True d show ?thesis by simp
  next
    case False
    with Cons.IH show ?thesis by simp
  qed
qed

text \<open>
  C6, amended: the tokenizer removes the space characters (and no other blank): the
  tokens, concatenated in their order, are the expression without its spaces; no token
  is empty or contains a space; a token is one delimiter, or a fragment without any
  delimiter; and two fragments never stand side by side.
\<close>

theorem tokens_of_expression:
  "concat (lexems_of expr) = remove_spaces expr \<and>
   separated (lexems_of expr) \<and>
   (\<forall>tk \<in> set (lexems_of expr).
      tk \<noteq> [] \<and> CHR '' '' \<notin> set tk \<and>
      (delimiter_token tk \<or> list_all (\<lambda>c. \<not> is_delimiter c) tk))"
proof (intro conjI ballI)
  show "concat (lexems_of expr) = remove_spaces expr" by (rule concat_lexems_of)
  show "separated (lexems_of expr)" by (simp add: lexems_of_def separated_re_split)
next
  fix tk assume tk: "tk \<in> set (lexems_of expr)"
  then show "tk \<noteq> []" by (simp add: lexems_of_def)
  from tk have "set tk \<subseteq> set (concat (lexems_of expr))" by auto
  then show "CHR '' '' \<notin> set tk" by (auto simp: concat_lexems_of remove_spaces_def)
  from tk have "tk \<in> set (re_split [] (remove_spaces expr))" by (simp add: lexems_of_def)
  then show "delimiter_token tk \<or> list_all (\<lambda>c. \<not> is_delimiter c) tk"
    using re_split_shape [of "[]"] by simp
qed

text \<open>The tokens of \<open>3 + x*2\<close>, the example of the specification.\<close>

theorem tokens_of_expression_witness:
  "lexems_of ''3 + x*2'' = [''3'', ''+'', ''x'', ''*'', ''2''] \<and>
   concat (lexems_of ''3 + x*2'') = ''3+x*2'' \<and>
   separated (lexems_of ''3 + x*2'') \<and>
   CHR '' '' \<notin> set (lexems_of ''3 + x*2'' ! 1)"
proof -
  have l: "lexems_of ''3 + x*2'' = [''3'', ''+'', ''x'', ''*'', ''2'']" by code_simp
  have r: "remove_spaces ''3 + x*2'' = ''3+x*2''" by code_simp
  show ?thesis using tokens_of_expression [of "''3 + x*2''"] by (simp add: l r)
qed

text \<open>
  C6 as stated fails: only the space is removed. A tab between \<open>1\<close> and \<open>+\<close> stays in
  the first token.
\<close>

theorem tab_stays_in_token:
  "lexems_of [CHR ''1'', CHR 0x09, CHR ''+'', CHR ''2''] = [[CHR ''1'', CHR 0x09], ''+'', ''2''] \<and>
   CHR 0x09 \<in> set (hd (lexems_of [CHR ''1'', CHR 0x09, CHR ''+'', CHR ''2'']))"
  by code_simp

section \<open>Normalizing twice\<close>

lemma indices_of_none: "set lexems \<inter> set tier = {} \<Longrightarrow> indices_of tier lexems = []"
proof -
  assume disj: "set lexems \<inter> set tier = {}"
  have "lexems ! i \<notin> set tier" if "i < length lexems" for i
    using that disj nth_mem [of i lexems] by blast
  then show ?thesis by (simp add: indices_of_def filter_empty_conv)
qed

lemma wrap_pass_none: "set lexems \<inter> set tier = {} \<Longrightarrow> wrap_pass tier lexems = Inr lexems"
  by (simp add: wrap_pass_def indices_of_none)

lemma preprocess_no_operators:
  assumes "set lexems \<inter> set operators = {}"
  shows "preprocess lexems = Inr lexems"
proof -
  from assms have "set lexems \<inter> set [''^''] = {}" "set lexems \<inter> set [''*'', ''/''] = {}"
    "set lexems \<inter> set [''+'', ''-''] = {}"
    by (auto simp: operators_def)
  then show ?thesis by (simp add: preprocess_def wrap_pass_none)
qed

lemma parentheses_added_refl: "parentheses_added xs xs"
  by (induction xs) simp_all

lemma parentheses_added_cons:
  "parenthesis p \<Longrightarrow> parentheses_added xs ys \<Longrightarrow> parentheses_added xs (p # ys)"
  by (cases xs) simp_all

lemma parentheses_added_nil: "parentheses_added xs [] \<Longrightarrow> xs = []"
  by (cases xs) simp_all

lemma parentheses_added_trans:
  "parentheses_added xs ys \<Longrightarrow> parentheses_added ys zs \<Longrightarrow> parentheses_added xs zs"
proof (induction ys zs arbitrary: xs rule: parentheses_added.induct)
  case 1
  then show ?case by simp
next
  case (2 a ls)
  then show ?case by simp
next
  case (3 t out)
  from "3.prems"(1) have "xs = []" by (rule parentheses_added_nil)
  with "3.prems"(2) show ?case by simp
next
  case (4 a ls t out)
  from "4.prems"(2) consider (same) "a = t" "parentheses_added ls out"
    | (added) "parenthesis t" "parentheses_added (a # ls) out"
    by auto
  then show ?case
  proof cases
    case added
    from "4.IH"(2) [OF "4.prems"(1) added(2)] added(1) show ?thesis
      by (rule parentheses_added_cons [rotated])
  next
    case same
    show ?thesis
    proof (cases xs)
      case Nil
      with "4.prems"(1) have "parenthesis a" "parentheses_added [] ls" by simp_all
      from "4.IH"(1) [OF this(2) same(2)] this(1) same(1) Nil show ?thesis by simp
    next
      case (Cons b xs')
      with "4.prems"(1) consider "b = a" "parentheses_added xs' ls"
        | "parenthesis a" "parentheses_added (b # xs') ls"
        by auto
      then show ?thesis
      proof cases
        case 1
        from "4.IH"(1) [OF 1(2) same(2)] 1(1) same(1) Cons show ?thesis by simp
      next
        case 2
        from "4.IH"(1) [OF 2(2) same(2)] 2(1) same(1) Cons show ?thesis by simp
      qed
    qed
  qed
qed

lemma parentheses_added_insert:
  "parenthesis p \<Longrightarrow> parentheses_added xs (list_insert i p xs)"
proof (induction xs arbitrary: i)
  case Nil
  then show ?case by (simp add: list_insert_def)
next
  case (Cons a xs)
  show ?case
  proof (cases i)
    case 0
    with Cons.prems show ?thesis
      by (simp add: list_insert_def parentheses_added_refl)
  next
    case (Suc j)
    with Cons.IH [OF Cons.prems, of j] show ?thesis by (simp add: list_insert_def)
  qed
qed

lemma parentheses_added_insert_more:
  "parenthesis p \<Longrightarrow> parentheses_added xs ys \<Longrightarrow> parentheses_added xs (list_insert i p ys)"
  using parentheses_added_insert [of p ys i] by (blast intro: parentheses_added_trans)

lemma insertParanthesesAround_adds:
  assumes "insertParanthesesAround lexems index = Inr out"
  shows "parentheses_added lexems out"
proof -
  have par: "parenthesis ''(''" "parenthesis '')''" by (simp_all add: parenthesis_def)
  from assms show ?thesis
    by (auto simp: insertParanthesesAround_def Let_def par parentheses_added_insert_more
        parentheses_added_refl split: sum.splits prod.splits option.splits if_splits)
qed

lemma wrap_all_adds:
  "wrap_all lexems ps i = Inr out \<Longrightarrow> parentheses_added lexems out"
proof (induction ps arbitrary: lexems i)
  case Nil
  then show ?case by (simp add: parentheses_added_refl)
next
  case (Cons p ps)
  from Cons.prems obtain l1 where l1: "insertParanthesesAround lexems (p + 2 * i) = Inr l1"
    "wrap_all l1 ps (Suc i) = Inr out"
    by (auto split: sum.splits)
  from insertParanthesesAround_adds [OF l1(1)] Cons.IH [OF l1(2)] show ?case
    by (rule parentheses_added_trans)
qed

lemma wrap_pass_adds:
  "wrap_pass tier lexems = Inr out \<Longrightarrow> parentheses_added lexems out"
  unfolding wrap_pass_def by (rule wrap_all_adds)

lemma preprocess_adds:
  assumes "preprocess lexems = Inr out"
  shows "parentheses_added lexems out"
proof -
  from assms obtain l1 l2 where
    "wrap_pass [''^''] lexems = Inr l1" "wrap_pass [''*'', ''/''] l1 = Inr l2"
    "wrap_pass [''+'', ''-''] l2 = Inr out"
    by (auto simp: preprocess_def split: sum.splits)
  then have "parentheses_added lexems l1" "parentheses_added l1 l2" "parentheses_added l2 out"
    by (simp_all add: wrap_pass_adds)
  then show ?thesis by (blast intro: parentheses_added_trans)
qed

text \<open>
  C5, amended: normalization is idempotent where it finds no operator: such a token
  list is returned as it is, so normalizing it again changes nothing. Wherever
  normalization succeeds, its result is the given list with parentheses inserted:
  every given token is kept in its place and order and nothing but parentheses is
  new. Normalizing a normalized list can therefore only insert further parentheses.
\<close>

theorem renormalize_adds_parentheses_only:
  "(set lexems \<inter> set operators = {} \<longrightarrow> preprocess lexems = Inr lexems) \<and>
   (\<forall>out. preprocess lexems = Inr out \<longrightarrow> parentheses_added lexems out)"
  by (simp add: preprocess_no_operators preprocess_adds)

lemma preprocess_sum:
  "preprocess [''x'', ''+'', ''x''] = Inr [''('', ''x'', ''+'', ''x'', '')'']"
  by code_simp

text \<open>
  Both parts at work: \<open>( x )\<close> has no operator and stays; \<open>x + x\<close> becomes
  \<open>( x + x )\<close>, the same tokens with two parentheses inserted.
\<close>

theorem renormalize_adds_parentheses_only_witness:
  "preprocess [''('', ''x'', '')''] = Inr [''('', ''x'', '')''] \<and>
   parentheses_added [''x'', ''+'', ''x''] [''('', ''x'', ''+'', ''x'', '')'']"
proof -
  have "set [''('', ''x'', '')''] \<inter> set operators = {}" by (simp add: operators_def)
  with renormalize_adds_parentheses_only [of "[''('', ''x'', '')'']"]
  have "preprocess [''('', ''x'', '')''] = Inr [''('', ''x'', '')'']" by blast
  moreover from renormalize_adds_parentheses_only [of "[''x'', ''+'', ''x'']"] preprocess_sum
  have "parentheses_added [''x'', ''+'', ''x''] [''('', ''x'', ''+'', ''x'', '')'']" by blast
  ultimately show ?thesis by blast
qed

text \<open>
  C5 as stated fails: \<open>x + x\<close> is normalized to \<open>( x + x )\<close>, and normalizing that
  list wraps the operator once more.
\<close>

theorem renormalize_wraps_again:
  "preprocess [''x'', ''+'', ''x''] = Inr [''('', ''x'', ''+'', ''x'', '')''] \<and>
   preprocess [''('', ''x'', ''+'', ''x'', '')''] =
     Inr [''('', ''('', ''x'', ''+'', ''x'', '')'', '')'']"
  by code_simp

section \<open>Unbalanced parentheses\<close>

lemma deref_mutate:
  "deref (mutate f n p) (p @ q) = (case deref n p of None \<Rightarrow> None | Some c \<Rightarrow> deref (f c) q)"
proof (induction p arbitrary: n)
  case Nil
  then show ?case by simp
next
  case (Cons d p)
  then show ?case by (cases d; cases n) (auto split: option.splits)
qed

lemma no_left_after_open:
  "\<not> has_left (mutate (insertLeft (Str ''='')) n p) (p @ [L])"
  by (simp add: has_left_def deref_mutate insertLeft_def split: option.splits)

lemma step_open_pushes:
  assumes "\<not> has_left (ast b) (current_node b)"
  shows "\<exists>b'. step flt ''('' b = Inr b' \<and>
           length (nodes_stack b') = Suc (length (nodes_stack b)) \<and>
           \<not> has_left (ast b') (current_node b')"
  using assms by (simp add: step_def Let_def no_left_after_open)

lemma build_opens:
  "\<not> has_left (ast b) (current_node b) \<Longrightarrow>
   \<exists>b'. build flt (replicate n ''('') b = Inr b' \<and>
        length (nodes_stack b') = length (nodes_stack b) + n"
proof (induction n arbitrary: b)
  case 0
  then show ?case by simp
next
  case (Suc n)
  from step_open_pushes [OF Suc.prems] obtain b1 where
    b1: "step flt ''('' b = Inr b1" "length (nodes_stack b1) = Suc (length (nodes_stack b))"
      "\<not> has_left (ast b1) (current_node b1)"
    by blast
  from Suc.IH [OF b1(3)] obtain b' where
    "build flt (replicate n ''('') b1 = Inr b'"
    "length (nodes_stack b') = length (nodes_stack b1) + n"
    by blast
  with b1 show ?case by simp
qed

lemma build_append:
  "build flt (ts @ us) b =
     (case build flt ts b of Inl e \<Rightarrow> Inl e | Inr b' \<Rightarrow> build flt us b')"
  by (induction ts arbitrary: b) (auto split: sum.splits)

lemma step_stack:
  "step flt tk b = Inr b' \<Longrightarrow>
   length (nodes_stack b) \<le> length (nodes_stack b') + (if tk = '')'' then 1 else 0)"
  by (auto simp: step_def Let_def split: if_splits list.splits option.splits)

lemma build_stack:
  "build flt ts b = Inr b' \<Longrightarrow>
   length (nodes_stack b) \<le> length (nodes_stack b') + count_list ts '')''"
proof (induction ts arbitrary: b)
  case Nil
  then show ?case by simp
next
  case (Cons tk ts)
  from Cons.prems obtain b1 where b1: "step flt tk b = Inr b1" "build flt ts b1 = Inr b'"
    by (auto split: sum.splits)
  from step_stack [OF b1(1)] Cons.IH [OF b1(2)] show ?case by (auto split: if_splits)
qed

lemma step_error:
  "step flt tk b = Inl e \<Longrightarrow> e = NameError (unknown_variable tk)"
  by (auto simp: step_def Let_def split: if_splits list.splits option.splits)

lemma build_error:
  "build flt ts b = Inl e \<Longrightarrow> \<exists>tk \<in> set ts. e = NameError (unknown_variable tk)"
proof (induction ts arbitrary: b)
  case Nil
  then show ?case by simp
next
  case (Cons tk ts)
  then show ?case by (auto split: sum.splits dest: step_error)
qed

text \<open>
  What the builder does detect: an expression without operators whose tokens begin with
  \<open>n\<close> opening parentheses and hold fewer than \<open>n\<close> closing ones never yields a tree.
\<close>

lemma unclosed_prefix_rejected:
  assumes lex: "lexems_of expr = replicate n ''('' @ rest"
    and no_op: "set rest \<inter> set operators = {}"
    and fewer: "count_list rest '')'' < n"
  shows "parse flt expr = Inl (SyntaxError ''Too few closing parantheses'') \<or>
         (\<exists>tk \<in> set rest. parse flt expr = Inl (NameError (unknown_variable tk)))"
proof -
  have "set (lexems_of expr) \<inter> set operators = {}"
    using no_op by (auto simp: lex operators_def)
  then have p: "parse flt expr = parse_lexems flt (replicate n ''('' @ rest)"
    by (simp add: parse_def tockenize_def preprocess_no_operators lex)
  have "\<not> has_left (ast (start :: 'a builder)) (current_node (start :: 'a builder))"
    by (simp add: start_def has_left_def)
  from build_opens [OF this, of flt n] obtain b1 :: "'a builder" where
    b1: "build flt (replicate n ''('') start = Inr b1" "length (nodes_stack b1) = n"
    by (auto simp: start_def)
  show ?thesis
  proof (cases "build flt rest b1")
    case (Inl e)
    with build_error obtain tk where "tk \<in> set rest" "e = NameError (unknown_variable tk)"
      by blast
    with Inl b1 p show ?thesis by (auto simp: parse_lexems_def build_append)
  next
    case (Inr b2)
    from build_stack [OF Inr] b1(2) fewer have "nodes_stack b2 \<noteq> []" by auto
    with Inr b1 p show ?thesis by (simp add: parse_lexems_def build_append finish_def)
  qed
qed

text \<open>
  C4: \<open>parse\<close> returns a tree for inputs with unbalanced parentheses. \<open>x)\<close> and
  \<open>x+x)\<close> have one closing parenthesis too many, as has \<open>(3+2)^2)\<close>, which differs
  from the rejected \<open>(3 + 2))^2\<close> of the test suite only in the place of the surplus
  parenthesis; \<open>x(\<close> has an opening parenthesis that is never closed. The trees of
  \<open>x+x)\<close> and \<open>(3+2)^2)\<close> even evaluate, to \<open>x + x\<close> and to 25.
\<close>

theorem unbalanced_accepted:
  "parse float_of ''x)'' = Inr (Node (Str ''='') (Some (Node (Str ''x'') None None)) None) \<and>
   parse float_of ''x('' =
     Inr (Node (Str ''='') (Some (Node (Str ''x'') None None))
            (Some (Node (Str ''='') None None))) \<and>
   parse_evaluate float_of numpy ''x+x)'' (Array [1, 2]) = Inr (Inr (Array [2, 4])) \<and>
   parse_evaluate float_of numpy ''(3+2)^2)'' (Array [1]) = Inr (Inr (Scalar 25))"
  by code_simp

section \<open>The references of the builder stay in the tree\<close>

lemma deref_prefix: "deref n (p @ q) \<noteq> None \<Longrightarrow> deref n p \<noteq> None"
proof (induction p arbitrary: n)
  case Nil
  then show ?case by simp
next
  case (Cons d p)
  show ?case
  proof (cases d)
    case L
    show ?thesis
    proof (cases "left n")
      case None
      with Cons.prems L show ?thesis by simp
    next
      case (Some c)
      with Cons.prems L have "deref c (p @ q) \<noteq> None" by simp
      from Cons.IH [OF this] Some L show ?thesis by simp
    qed
  next
    case R
    show ?thesis
    proof (cases "right n")
      case None
      with Cons.prems R show ?thesis by simp
    next
      case (Some c)
      with Cons.prems R have "deref c (p @ q) \<noteq> None" by simp
      from Cons.IH [OF this] Some R show ?thesis by simp
    qed
  qed
qed

lemma ancestors_extend: "ancestors cur ps \<Longrightarrow> ancestors (cur @ q) ps"
  by (cases ps) simp_all

lemma deref_mutate_here:
  "deref (mutate f n p) p = (case deref n p of None \<Rightarrow> None | Some c \<Rightarrow> Some (f c))"
  using deref_mutate [of f n p "[]"] by (simp split: option.splits)

lemma well_formed_descend:
  assumes "well_formed b" and "\<And>c. deref (f c) [d] \<noteq> None"
  shows "well_formed \<lparr>ast = mutate f (ast b) (current_node b),
                       current_node = current_node b @ [d],
                       nodes_stack = nodes_stack b\<rparr>"
proof -
  from assms(1) obtain c where c: "deref (ast b) (current_node b) = Some c"
    and a: "ancestors (current_node b) (nodes_stack b)"
    by (auto simp: well_formed_def)
  from c assms(2) have "deref (mutate f (ast b) (current_node b)) (current_node b @ [d]) \<noteq> None"
    by (simp add: deref_mutate)
  with ancestors_extend [OF a] show ?thesis by (simp add: well_formed_def)
qed

lemma well_formed_push:
  assumes "well_formed b" and "\<And>c. deref (f c) [d] \<noteq> None"
  shows "well_formed \<lparr>ast = mutate f (ast b) (current_node b),
                       current_node = current_node b @ [d],
                       nodes_stack = current_node b # nodes_stack b\<rparr>"
proof -
  from assms(1) obtain c where c: "deref (ast b) (current_node b) = Some c"
    and a: "ancestors (current_node b) (nodes_stack b)"
    by (auto simp: well_formed_def)
  from c assms(2) have "deref (mutate f (ast b) (current_node b)) (current_node b @ [d]) \<noteq> None"
    by (simp add: deref_mutate)
  with a show ?thesis by (simp add: well_formed_def)
qed

lemma well_formed_stay:
  assumes "well_formed b"
  shows "well_formed \<lparr>ast = mutate f (ast b) (current_node b),
                       current_node = current_node b,
                       nodes_stack = nodes_stack b\<rparr>"
proof -
  from assms obtain c where c: "deref (ast b) (current_node b) = Some c"
    and a: "ancestors (current_node b) (nodes_stack b)"
    by (auto simp: well_formed_def)
  from c have "deref (mutate f (ast b) (current_node b)) (current_node b) \<noteq> None"
    by (simp add: deref_mutate_here)
  with a show ?thesis by (simp add: well_formed_def)
qed

lemma well_formed_pop:
  assumes "well_formed b" and "nodes_stack b = parent # rest"
  shows "well_formed \<lparr>ast = ast b, current_node = parent, nodes_stack = rest\<rparr>"
proof -
  from assms have p: "take (length parent) (current_node b) = parent" "ancestors parent rest"
    by (simp_all add: well_formed_def)
  have "current_node b = parent @ drop (length parent) (current_node b)"
    using append_take_drop_id [of "length parent" "current_node b"] p(1) by simp
  with assms(1) have "deref (ast b) (parent @ drop (length parent) (current_node b)) \<noteq> None"
    by (simp add: well_formed_def)
  from deref_prefix [OF this] p(2) show ?thesis by (simp add: well_formed_def)
qed

lemma step_well_formed:
  assumes wf: "well_formed b" and st: "step flt tk b = Inr b'"
  shows "well_formed b'"
proof -
  consider (paren_open) "tk = ''(''"
    | (operator) "tk \<noteq> ''(''" "tk \<in> set operators"
    | (paren_close) "tk \<noteq> ''(''" "tk \<notin> set operators" "tk = '')''"
    | (operand) "tk \<noteq> ''(''" "tk \<notin> set operators" "tk \<noteq> '')''"
    by blast
  then show ?thesis
  proof cases
    case paren_open
    show ?thesis
    proof (cases "has_left (ast b) (current_node b)")
      case True
      with st paren_open have "b' = \<lparr>ast = mutate (insertRight (Str ''='')) (ast b) (current_node b),
          current_node = current_node b @ [R], nodes_stack = nodes_stack b\<rparr>"
        by (simp add: step_def Let_def)
      then show ?thesis using well_formed_descend [OF wf] by (simp add: insertRight_def)
    next
      case False
      with st paren_open have "b' = \<lparr>ast = mutate (insertLeft (Str ''='')) (ast b) (current_node b),
          current_node = current_node b @ [L], nodes_stack = current_node b # nodes_stack b\<rparr>"
        by (simp add: step_def Let_def)
      then show ?thesis using well_formed_push [OF wf] by (simp add: insertLeft_def)
    qed
  next
    case operator
    with st have "b' = \<lparr>ast = mutate (\<lambda>n. insertRight (Str ''='') (setToken (Str tk) n))
            (ast b) (current_node b),
          current_node = current_node b @ [R], nodes_stack = nodes_stack b\<rparr>"
      by (simp add: step_def Let_def)
    then show ?thesis using well_formed_descend [OF wf] by (simp add: insertRight_def)
  next
    case paren_close
    show ?thesis
    proof (cases "nodes_stack b")
      case Nil
      with st paren_close wf show ?thesis by (simp add: step_def Let_def)
    next
      case (Cons parent rest)
      with st paren_close have "b' = \<lparr>ast = ast b, current_node = parent, nodes_stack = rest\<rparr>"
        by (simp add: step_def Let_def)
      then show ?thesis using well_formed_pop [OF wf Cons] by simp
    qed
  next
    case operand
    show ?thesis
    proof (cases "tk = ''x''")
      case True
      with st operand have "b' = \<lparr>ast = mutate (insertLeft (Str tk)) (ast b) (current_node b),
          current_node = current_node b, nodes_stack = nodes_stack b\<rparr>"
        by (simp add: step_def Let_def)
      then show ?thesis using well_formed_stay [OF wf] by simp
    next
      case False
      with st operand obtain v where "flt tk = Some v"
        and "b' = \<lparr>ast = mutate (insertLeft (Flt v)) (ast b) (current_node b),
          current_node = current_node b, nodes_stack = nodes_stack b\<rparr>"
        by (auto simp: step_def Let_def split: option.splits)
      then show ?thesis using well_formed_stay [OF wf] by simp
    qed
  qed
qed

lemma build_well_formed:
  "well_formed b \<Longrightarrow> build flt ts b = Inr b' \<Longrightarrow> well_formed b'"
proof (induction ts arbitrary: b)
  case Nil
  then show ?case by simp
next
  case (Cons tk ts)
  then show ?case by (auto split: sum.splits dest: step_well_formed)
qed

lemma start_well_formed: "well_formed start"
  by (simp add: well_formed_def start_def)

end
